theory Spec2Isabelle
  imports Complex_Main "HOL-Library.AList"
begin

section \<open>The target representation\<close>

text \<open>
  The generator builds its output with the \<^verbatim>\<open>llvmlite.ir\<close> library.  The types, values
  and blocks of that library are modelled here as far as the generator uses them.
\<close>

datatype ir_type =
    IntType nat
  | FloatType
  | DoubleType
  | VoidType
  | LabelType
  | PointerType ir_type
  | ArrayType ir_type nat
  | FunctionType ir_type "ir_type list" bool

datatype const = CInt int | CFloat real | CBytes string

datatype opcode =
    OpAlloca | OpStore | OpLoad
  | OpBin string | OpICmp string | OpFCmp string | OpCast string
  | OpCall | OpBr | OpCBr | OpRet

text \<open>
  A value of the library is a Python object.  An instruction carries the serial number it
  was created with, which stands for its identity; a block is referred to by its address
  in the store of blocks.  \<open>NoneValue\<close> is Python's \<^verbatim>\<open>None\<close> where the generator passes it
  on in the place of a value.
\<close>

datatype ir_value =
    NoneValue
  | Constant ir_type const
  | GlobalVariable string ir_type
  | Function string ir_type
  | Argument string nat ir_type
  | Block nat
  | Instruction nat opcode "ir_value list" ir_type

section \<open>Envorment.py: the scoped symbol table\<close>

datatype environment =
  Environment (records: "(string \<times> ir_value \<times> ir_type) list")
              (parent: "environment option")
              (name: string)

text \<open>
  The dictionary \<^verbatim>\<open>records\<close> is an association list with one entry for each key, in the order
  of insertion.  \<^verbatim>\<open>Environment.define\<close> writes \<^verbatim>\<open>self.records[name]\<close>; the value it returns is never used.
  (\<open>define\<close> is a keyword of the proof language, hence the longer name.)
\<close>

definition env_define :: "environment \<Rightarrow> string \<Rightarrow> ir_value \<Rightarrow> ir_type \<Rightarrow> environment" where
  "env_define e n v t = Environment (AList.update n (v, t) (records e)) (parent e) (name e)"

fun resolve :: "environment \<Rightarrow> string \<Rightarrow> (ir_value \<times> ir_type) option" where
  "resolve (Environment r p nm) n =
     (case map_of r n of
        Some b \<Rightarrow> Some b
      | None \<Rightarrow> (case p of Some q \<Rightarrow> resolve q n | None \<Rightarrow> None))"

definition lookup :: "environment \<Rightarrow> string \<Rightarrow> (ir_value \<times> ir_type) option" where
  "lookup e n = resolve e n"

text \<open>
  The same method with the environment after the call made explicit: the result comes with
  the receiver as the call leaves it, and the receiver holds its parent as the recursive call
  leaves it.
\<close>

fun resolve_state ::
  "environment \<Rightarrow> string \<Rightarrow> (ir_value \<times> ir_type) option \<times> environment" where
  "resolve_state (Environment r p nm) n =
     (case map_of r n of
        Some b \<Rightarrow> (Some b, Environment r p nm)
      | None \<Rightarrow>
          (case p of
             Some q \<Rightarrow>
               (case resolve_state q n of (res, q') \<Rightarrow> (res, Environment r (Some q') nm))
           | None \<Rightarrow> (None, Environment r p nm)))"

text \<open>The scopes of the active chain, the current one first.\<close>

fun chain :: "environment \<Rightarrow> environment list" where
  "chain (Environment r p nm) =
     Environment r p nm # (case p of Some q \<Rightarrow> chain q | None \<Rightarrow> [])"

section \<open>Python failures\<close>

text \<open>
  A Python exception ends the compilation: the driver does not catch it.  The last
  constructor is not a Python exception: it is the answer of the model where a block address
  would not be in the store, which no run of the generator produces.
\<close>

datatype exn =
    TypeError | AttributeError | IndexError | KeyError | AssertionError | ValueError
  | DuplicatedNameError | DanglingBlock

definition bnd :: "exn + 'a \<Rightarrow> ('a \<Rightarrow> exn + 'b) \<Rightarrow> exn + 'b" where
  "bnd m f = (case m of Inl e \<Rightarrow> Inl e | Inr x \<Rightarrow> f x)"

section \<open>The module, the builder and the state of the generator\<close>

record ir_block =
  block_function :: string
  label :: string
  instructions :: "ir_value list"
  terminator :: "ir_value option"

text \<open>
  A global variable has its value type, its initializer, its \<^verbatim>\<open>global_constant\<close> flag and its
  linkage; a function has its function type.  The blocks of a function are the blocks of the
  store that name it, in the order of their creation.
\<close>

datatype ir_global =
    GVar ir_type "ir_value option" bool string
  | GFunc ir_type

record ir_module =
  globals :: "(string \<times> ir_global) list"
  blocks :: "ir_block list"
  serial :: nat

record ir_builder =
  block :: "nat option"
  anchor :: nat

record cstate =
  module :: ir_module
  builder :: ir_builder
  counter :: int
  env :: environment
  errors :: "string list"
  breakpoints :: "nat list"
  continues :: "nat list"
  stdout :: "string list"

definition function_blocks :: "ir_module \<Rightarrow> string \<Rightarrow> ir_block list" where
  "function_blocks m f = filter (\<lambda>b. block_function b = f) (blocks m)"

definition get_block :: "ir_module \<Rightarrow> nat \<Rightarrow> exn + ir_block" where
  "get_block m a = (if a < length (blocks m) then Inr (blocks m ! a) else Inl DanglingBlock)"

definition put_block :: "ir_module \<Rightarrow> nat \<Rightarrow> ir_block \<Rightarrow> ir_module" where
  "put_block m a b = m\<lparr>blocks := (blocks m)[a := b]\<rparr>"

text \<open>The attribute \<^verbatim>\<open>.type\<close> of a value; \<^verbatim>\<open>None\<close> has none.\<close>

fun type_of :: "ir_value \<Rightarrow> exn + ir_type" where
  "type_of NoneValue = Inl AttributeError"
| "type_of (Constant t c) = Inr t"
| "type_of (GlobalVariable n t) = Inr (PointerType t)"
| "type_of (Function n t) = Inr (PointerType t)"
| "type_of (Argument f i t) = Inr t"
| "type_of (Block a) = Inr LabelType"
| "type_of (Instruction k opc ops t) = Inr t"

subsection \<open>llvmlite's IRBuilder\<close>

text \<open>
  \<^verbatim>\<open>IRBuilder._insert\<close>: the instruction is created (the constructor asserts that its
  parent block is not \<^verbatim>\<open>None\<close>), put into the instruction list of the current block at the
  anchor, and the anchor moves one place on.
\<close>

definition emit :: "cstate \<Rightarrow> opcode \<Rightarrow> ir_value list \<Rightarrow> ir_type \<Rightarrow> exn + (ir_value \<times> cstate)" where
  "emit s opc ops t =
     (case block (builder s) of
        None \<Rightarrow> Inl AssertionError
      | Some a \<Rightarrow>
          bnd (get_block (module s) a) (\<lambda>b.
            let i = Instruction (serial (module s)) opc ops t;
                n = anchor (builder s);
                b' = b\<lparr>instructions := take n (instructions b) @ i # drop n (instructions b)\<rparr>
            in Inr (i, s\<lparr>module := (put_block (module s) a b')\<lparr>serial := Suc (serial (module s))\<rparr>,
                         builder := (builder s)\<lparr>anchor := Suc n\<rparr>\<rparr>)))"

text \<open>
  \<^verbatim>\<open>IRBuilder._set_terminator\<close>: asserts that the current block has no terminator yet,
  inserts the instruction at the anchor and records it as the terminator of the block.
\<close>

definition set_terminator :: "cstate \<Rightarrow> opcode \<Rightarrow> ir_value list \<Rightarrow> exn + (ir_value \<times> cstate)" where
  "set_terminator s opc ops =
     (case block (builder s) of
        None \<Rightarrow> Inl AssertionError
      | Some a \<Rightarrow>
          bnd (get_block (module s) a) (\<lambda>b.
            if terminator b \<noteq> None then Inl AssertionError
            else
              let i = Instruction (serial (module s)) opc ops VoidType;
                  n = anchor (builder s);
                  b' = b\<lparr>instructions := take n (instructions b) @ i # drop n (instructions b),
                         terminator := Some i\<rparr>
              in Inr (i, s\<lparr>module := (put_block (module s) a b')\<lparr>serial := Suc (serial (module s))\<rparr>,
                           builder := (builder s)\<lparr>anchor := Suc n\<rparr>\<rparr>)))"

text \<open>\<^verbatim>\<open>builder.block.is_terminated\<close>; without a current block the attribute access fails.\<close>

definition is_terminated :: "cstate \<Rightarrow> exn + bool" where
  "is_terminated s =
     (case block (builder s) of
        None \<Rightarrow> Inl AttributeError
      | Some a \<Rightarrow> bnd (get_block (module s) a) (\<lambda>b. Inr (terminator b \<noteq> None)))"

definition alloca :: "cstate \<Rightarrow> ir_type \<Rightarrow> exn + (ir_value \<times> cstate)" where
  "alloca s t = emit s OpAlloca [] (PointerType t)"

text \<open>
  \<^verbatim>\<open>store\<close> checks that the target is a pointer and that its pointee type is the type of
  the value, \<^verbatim>\<open>load\<close> that its operand is a pointer.
\<close>

definition store :: "cstate \<Rightarrow> ir_value \<Rightarrow> ir_value \<Rightarrow> exn + (ir_value \<times> cstate)" where
  "store s v ptr =
     bnd (type_of ptr) (\<lambda>pt.
       case pt of
         PointerType pointee \<Rightarrow>
           bnd (type_of v) (\<lambda>vt.
             if pointee \<noteq> vt then Inl TypeError
             else emit s OpStore [v, ptr] VoidType)
       | _ \<Rightarrow> Inl TypeError)"

definition load :: "cstate \<Rightarrow> ir_value \<Rightarrow> exn + (ir_value \<times> cstate)" where
  "load s ptr =
     bnd (type_of ptr) (\<lambda>pt.
       case pt of
         PointerType pointee \<Rightarrow> emit s OpLoad [ptr] pointee
       | _ \<Rightarrow> Inl TypeError)"

text \<open>The arithmetic instructions require operands of one type (\<^verbatim>\<open>ValueError\<close> otherwise).\<close>

definition binop :: "cstate \<Rightarrow> string \<Rightarrow> ir_value \<Rightarrow> ir_value \<Rightarrow> exn + (ir_value \<times> cstate)" where
  "binop s opname lhs rhs =
     bnd (type_of lhs) (\<lambda>lt.
     bnd (type_of rhs) (\<lambda>rt.
       if lt \<noteq> rt then Inl ValueError else emit s (OpBin opname) [lhs, rhs] lt))"

text \<open>
  The comparisons read the type of the left operand only and give a 1-bit integer.  The
  generator passes the operators \<^verbatim>\<open><\<close>, \<^verbatim>\<open><=\<close>, \<^verbatim>\<open>>\<close>, \<^verbatim>\<open>>=\<close> and \<^verbatim>\<open>==\<close>; the name kept in the
  instruction is the operator as the generator wrote it.
\<close>

definition icmp_signed :: "cstate \<Rightarrow> string \<Rightarrow> ir_value \<Rightarrow> ir_value \<Rightarrow> exn + (ir_value \<times> cstate)" where
  "icmp_signed s cmpop lhs rhs =
     bnd (type_of lhs) (\<lambda>lt. emit s (OpICmp cmpop) [lhs, rhs] (IntType 1))"

definition fcmp_ordered :: "cstate \<Rightarrow> string \<Rightarrow> ir_value \<Rightarrow> ir_value \<Rightarrow> exn + (ir_value \<times> cstate)" where
  "fcmp_ordered s cmpop lhs rhs =
     bnd (type_of lhs) (\<lambda>lt. emit s (OpFCmp cmpop) [lhs, rhs] (IntType 1))"

text \<open>A cast to the type the value already has returns the value and emits nothing.\<close>

definition castop :: "cstate \<Rightarrow> string \<Rightarrow> ir_value \<Rightarrow> ir_type \<Rightarrow> exn + (ir_value \<times> cstate)" where
  "castop s opname v t =
     bnd (type_of v) (\<lambda>vt. if vt = t then Inr (v, s) else emit s (OpCast opname) [v] t)"

text \<open>
  \<^verbatim>\<open>builder.call\<close>: the callee must have a function type or a pointer to one; each declared
  parameter needs an argument of its type (further arguments of a variadic function are
  not checked).
\<close>

fun function_type :: "ir_value \<Rightarrow> exn + ir_type" where
  "function_type NoneValue = Inl AttributeError"
| "function_type (Constant t c) = Inl AttributeError"
| "function_type v =
     bnd (type_of v) (\<lambda>t.
       case t of
         FunctionType r ps va \<Rightarrow> Inr t
       | PointerType (FunctionType r ps va) \<Rightarrow> Inr (FunctionType r ps va)
       | _ \<Rightarrow> Inl TypeError)"

fun check_args :: "ir_type list \<Rightarrow> ir_value list \<Rightarrow> exn + unit" where
  "check_args [] args = Inr ()"
| "check_args (p # ps) [] = Inl IndexError"
| "check_args (p # ps) (a # args) =
     bnd (type_of a) (\<lambda>t. if t \<noteq> p then Inl TypeError else check_args ps args)"

definition call :: "cstate \<Rightarrow> ir_value \<Rightarrow> ir_value list \<Rightarrow> exn + (ir_value \<times> cstate)" where
  "call s fn args =
     bnd (function_type fn) (\<lambda>ft.
       case ft of
         FunctionType r ps va \<Rightarrow>
           bnd (check_args ps args) (\<lambda>_. emit s OpCall (fn # args) r)
       | _ \<Rightarrow> Inl TypeError)"

definition cbranch :: "cstate \<Rightarrow> ir_value \<Rightarrow> nat \<Rightarrow> nat \<Rightarrow> exn + cstate" where
  "cbranch s cond truebr falsebr =
     bnd (set_terminator s OpCBr [cond, Block truebr, Block falsebr]) (\<lambda>(i, s'). Inr s')"

definition branch :: "cstate \<Rightarrow> nat \<Rightarrow> exn + cstate" where
  "branch s target = bnd (set_terminator s OpBr [Block target]) (\<lambda>(i, s'). Inr s')"

text \<open>\<^verbatim>\<open>ret(None)\<close> builds a return without operand.\<close>

definition ret :: "cstate \<Rightarrow> ir_value \<Rightarrow> exn + cstate" where
  "ret s v =
     bnd (set_terminator s OpRet (if v = NoneValue then [] else [v])) (\<lambda>(i, s'). Inr s')"

text \<open>
  \<^verbatim>\<open>builder.append_basic_block\<close> appends a new block to the function of the current block
  (\<^verbatim>\<open>self.block.parent\<close>); the cursor does not move.  The label is the one asked for; the library
  makes it unique within the function.
\<close>

definition new_block :: "cstate \<Rightarrow> string \<Rightarrow> string \<Rightarrow> nat \<times> cstate" where
  "new_block s f l =
     (length (blocks (module s)),
      s\<lparr>module := (module s)\<lparr>blocks := blocks (module s) @
           [\<lparr>block_function = f, label = l, instructions = [], terminator = None\<rparr>]\<rparr>\<rparr>)"

definition append_basic_block :: "cstate \<Rightarrow> string \<Rightarrow> exn + (nat \<times> cstate)" where
  "append_basic_block s l =
     (case block (builder s) of
        None \<Rightarrow> Inl AttributeError
      | Some a \<Rightarrow> bnd (get_block (module s) a) (\<lambda>b. Inr (new_block s (block_function b) l)))"

definition position_at_start :: "cstate \<Rightarrow> nat \<Rightarrow> cstate" where
  "position_at_start s a = s\<lparr>builder := \<lparr>block = Some a, anchor = 0\<rparr>\<rparr>"

definition position_at_end :: "cstate \<Rightarrow> nat \<Rightarrow> exn + cstate" where
  "position_at_end s a =
     bnd (get_block (module s) a) (\<lambda>b.
       Inr (s\<lparr>builder := \<lparr>block = Some a, anchor = length (instructions b)\<rparr>\<rparr>))"

text \<open>
  The globals of the module: a name can be registered once (\<^verbatim>\<open>DuplicatedNameError\<close>), and
  \<^verbatim>\<open>module.get_global\<close> raises \<^verbatim>\<open>KeyError\<close> for a name it does not have.
\<close>

definition add_global :: "cstate \<Rightarrow> string \<Rightarrow> ir_global \<Rightarrow> exn + cstate" where
  "add_global s n g =
     (if n \<in> fst ` set (globals (module s)) then Inl DuplicatedNameError
      else Inr (s\<lparr>module := (module s)\<lparr>globals := globals (module s) @ [(n, g)]\<rparr>\<rparr>))"

definition get_global :: "cstate \<Rightarrow> string \<Rightarrow> exn + ir_value" where
  "get_global s n =
     (case map_of (globals (module s)) n of
        None \<Rightarrow> Inl KeyError
      | Some (GVar t i c l) \<Rightarrow> Inr (GlobalVariable n t)
      | Some (GFunc t) \<Rightarrow> Inr (Function n t))"

section \<open>The syntax tree\<close>

text \<open>
  Modelled from the spec: the module \<^verbatim>\<open>AST\<close> that \<^verbatim>\<open>compiler.py\<close> imports is not among the
  sources.  The node kinds are those that section 6 of the specification lists and the
  imports of \<^verbatim>\<open>compiler.py\<close> name; each constructor has the fields that \<^verbatim>\<open>compiler.py\<close> reads
  from a node of that kind (\<^verbatim>\<open>node.name.value\<close> is kept as the string itself, and a function
  parameter as its pair of \<^verbatim>\<open>name\<close> and \<^verbatim>\<open>value_type\<close>).
\<close>

datatype node =
    Program "node list"
  | ExpressionStatement node
  | LetStatement string node string
  | FunctionStatement string "(string \<times> string) list" string node
  | BlockStatement "node list"
  | ReturnStatement node
  | AssignStatement string node
  | IfStatement node node "node option"
  | WhileStatement node node
  | BreakStatement
  | ContinueStatement
  | ForStatement node node node node
  | InfixExpression node string node
  | CallExpression string "node list"
  | IntegerLiteral int
  | FloatLiteral real
  | IdentifierLiteral string
  | BooleanLiteral bool
  | StringLiteral string
  | FunctionParameter string string

section \<open>compiler.py: the code generator\<close>

subsection \<open>Formatting and the type map\<close>

fun str_nat :: "nat \<Rightarrow> string" where
  "str_nat n =
     (if n < 10 then [char_of (48 + n)]
      else str_nat (n div 10) @ [char_of (48 + n mod 10)])"

declare str_nat.simps [simp del]

definition str_int :: "int \<Rightarrow> string" where
  "str_int i = (if i < 0 then CHR ''-'' # str_nat (nat (- i)) else str_nat (nat i))"

definition type_map :: "string \<Rightarrow> exn + ir_type" where
  "type_map n =
     (if n = ''int'' then Inr (IntType 32)
      else if n = ''float'' then Inr FloatType
      else if n = ''bool'' then Inr (IntType 1)
      else if n = ''void'' then Inr VoidType
      else if n = ''str'' then Inr (PointerType (IntType 8))
      else Inl KeyError)"

fun type_map_list :: "string list \<Rightarrow> exn + ir_type list" where
  "type_map_list [] = Inr []"
| "type_map_list (n # ns) =
     bnd (type_map n) (\<lambda>t. bnd (type_map_list ns) (\<lambda>ts. Inr (t # ts)))"

subsection \<open>The initial state\<close>

definition printf_type :: ir_type where
  "printf_type = FunctionType (IntType 32) [PointerType (IntType 8)] True"

definition initial_module :: ir_module where
  "initial_module =
     \<lparr>globals =
        [(''printf'', GFunc printf_type),
         (''true'', GVar (IntType 1) (Some (Constant (IntType 1) (CInt 1))) True []),
         (''false'', GVar (IntType 1) (Some (Constant (IntType 1) (CInt 0))) True [])],
      blocks = [],
      serial = 0\<rparr>"

definition initial_env :: environment where
  "initial_env =
     env_define
       (env_define
          (env_define (Environment [] None ''global'')
             ''printf'' (Function ''printf'' printf_type) (IntType 32))
          ''true'' (GlobalVariable ''true'' (IntType 1)) (PointerType (IntType 1)))
       ''false'' (GlobalVariable ''false'' (IntType 1)) (PointerType (IntType 1))"

definition init :: cstate where
  "init =
     \<lparr>module = initial_module,
      builder = \<lparr>block = None, anchor = 0\<rparr>,
      counter = 0,
      env = initial_env,
      errors = [],
      breakpoints = [],
      continues = [],
      stdout = []\<rparr>"

definition increment_counter :: "cstate \<Rightarrow> int \<times> cstate" where
  "increment_counter s = (counter s + 1, s\<lparr>counter := counter s + 1\<rparr>)"

text \<open>
  Unpacking a result into two names, as every caller of \<^verbatim>\<open>__resolve_value\<close> does: \<^verbatim>\<open>None\<close>
  cannot be unpacked.
\<close>

definition unpack :: "exn + ('a option \<times> cstate) \<Rightarrow> exn + ('a \<times> cstate)" where
  "unpack m =
     (case m of
        Inl e \<Rightarrow> Inl e
      | Inr (None, s) \<Rightarrow> Inl TypeError
      | Inr (Some r, s) \<Rightarrow> Inr (r, s))"

subsection \<open>Statements\<close>

text \<open>\<^verbatim>\<open>__visit_let_statement\<close>, after the value has been resolved.\<close>

definition let_store :: "cstate \<Rightarrow> string \<Rightarrow> ir_value \<times> ir_type option \<Rightarrow> exn + cstate" where
  "let_store s n r =
     (case r of (v, T) \<Rightarrow>
        (case lookup (env s) n of
           None \<Rightarrow>
             (case T of
                None \<Rightarrow> Inl AttributeError
              | Some t \<Rightarrow>
                  bnd (alloca s t) (\<lambda>(ptr, s1).
                  bnd (store s1 v ptr) (\<lambda>(i, s2).
                    Inr (s2\<lparr>env := env_define (env s2) n ptr t\<rparr>))))
         | Some (ptr, t) \<Rightarrow> bnd (store s v ptr) (\<lambda>(i, s1). Inr s1)))"

text \<open>\<^verbatim>\<open>__visit_assign_statement\<close>, after the value has been resolved.\<close>

definition assign_error :: "string \<Rightarrow> string" where
  "assign_error n =
     ''COMPILE ERROR: Identifier '' @ [CHR 0x27] @ n @ [CHR 0x27] @
     '' has not been declared before it was re-assigned.''"

definition assign_store :: "cstate \<Rightarrow> string \<Rightarrow> ir_value \<times> ir_type option \<Rightarrow> exn + cstate" where
  "assign_store s n r =
     (case r of (v, T) \<Rightarrow>
        (case lookup (env s) n of
           None \<Rightarrow> Inr (s\<lparr>errors := errors s @ [assign_error n]\<rparr>)
         | Some (ptr, t) \<Rightarrow> bnd (store s v ptr) (\<lambda>(i, s1). Inr s1)))"

text \<open>
  \<^verbatim>\<open>__visit_function_statement\<close> up to the compilation of the body: the function and its entry
  block are created, a new builder is placed in the entry block, the parameters are copied
  to stack slots, the function is defined in the enclosing scope and a child scope is
  opened.  The result holds the enclosing scope and the builder to restore.
\<close>

fun store_params :: "cstate \<Rightarrow> string \<Rightarrow> nat \<Rightarrow> ir_type list \<Rightarrow> exn + (ir_value list \<times> cstate)" where
  "store_params s f i [] = Inr ([], s)"
| "store_params s f i (t # ts) =
     bnd (alloca s t) (\<lambda>(ptr, s1).
     bnd (store s1 (Argument f i t) ptr) (\<lambda>(st, s2).
     bnd (store_params s2 f (Suc i) ts) (\<lambda>(ptrs, s3). Inr (ptr # ptrs, s3))))"

fun define_params :: "environment \<Rightarrow> (string \<times> ir_value \<times> ir_type) list \<Rightarrow> environment" where
  "define_params e [] = e"
| "define_params e ((n, ptr, t) # ps) = define_params (env_define e n ptr t) ps"

definition function_enter ::
  "cstate \<Rightarrow> string \<Rightarrow> (string \<times> string) list \<Rightarrow> string \<Rightarrow>
     exn + (environment \<times> ir_builder \<times> cstate)" where
  "function_enter s n params return_type =
     bnd (type_map_list (map snd params)) (\<lambda>param_types.
     bnd (type_map return_type) (\<lambda>rt.
     let fnty = FunctionType rt param_types False;
         func = Function n fnty
     in bnd (add_global s n (GFunc fnty)) (\<lambda>s1.
          case new_block s1 n (n @ ''_entry'') of (blk, s2) \<Rightarrow>
            let previous_builder = builder s2;
                s3 = s2\<lparr>builder := \<lparr>block = Some blk, anchor = 0\<rparr>\<rparr>
            in bnd (store_params s3 n 0 param_types) (\<lambda>(params_ptr, s4).
                 let previous_env = env_define (env s4) n func rt;
                     child = Environment [] (Some previous_env) ''global'';
                     child1 = define_params child (zip (map fst params) (zip params_ptr param_types))
                 in Inr (previous_env, previous_builder,
                         s4\<lparr>env := env_define child1 n func rt\<rparr>)))))"

definition function_leave :: "cstate \<Rightarrow> environment \<Rightarrow> ir_builder \<Rightarrow> cstate" where
  "function_leave s previous_env previous_builder =
     s\<lparr>env := previous_env, builder := previous_builder\<rparr>"

text \<open>
  \<^verbatim>\<open>__visit_if_statement\<close> without alternative runs the body inside llvmlite's
  \<^verbatim>\<open>builder.if_then\<close>: two blocks are appended, the current block branches on the test, the
  cursor goes to the end of the first, and after the body a branch to the second is added
  unless the current block is terminated; the cursor ends at the end of the second.
\<close>

definition if_then_enter :: "cstate \<Rightarrow> ir_value \<Rightarrow> exn + (nat \<times> cstate)" where
  "if_then_enter s test =
     (case block (builder s) of
        None \<Rightarrow> Inl AttributeError
      | Some a \<Rightarrow>
          bnd (get_block (module s) a) (\<lambda>bb.
          bnd (append_basic_block s (label bb @ ''.if'')) (\<lambda>(bbif, s1).
          bnd (append_basic_block s1 (label bb @ ''.endif'')) (\<lambda>(bbend, s2).
          bnd (cbranch s2 test bbif bbend) (\<lambda>s3.
          bnd (position_at_end s3 bbif) (\<lambda>s4. Inr (bbend, s4)))))))"

definition if_then_exit :: "cstate \<Rightarrow> nat \<Rightarrow> exn + cstate" where
  "if_then_exit s bbend =
     bnd (is_terminated s) (\<lambda>t.
     bnd (if t then Inr s else branch s bbend) (\<lambda>s1.
       position_at_end s1 bbend))"

text \<open>
  \<^verbatim>\<open>__visit_if_statement\<close> with an alternative, in three parts around the compilation of the
  two arms.  llvmlite's \<^verbatim>\<open>ir.Block\<close> has no method \<^verbatim>\<open>delete\<close>: the call at the end of the source
  function raises \<^verbatim>\<open>AttributeError\<close>.
\<close>

definition if_else_enter :: "cstate \<Rightarrow> ir_value \<Rightarrow> exn + ((nat \<times> nat) \<times> cstate)" where
  "if_else_enter s test =
     (case increment_counter s of (c, s0) \<Rightarrow>
        bnd (append_basic_block s0 (''if_then_'' @ str_int c)) (\<lambda>(then_block, s1).
        bnd (append_basic_block s1 (''if_else_'' @ str_int (counter s1))) (\<lambda>(else_block, s2).
        bnd (append_basic_block s2 (''if_endif_'' @ str_int (counter s2))) (\<lambda>(endif_block, s3).
        bnd (cbranch s3 test then_block else_block) (\<lambda>s4.
          Inr ((else_block, endif_block), position_at_start s4 then_block))))))"

definition if_else_middle :: "cstate \<Rightarrow> nat \<Rightarrow> nat \<Rightarrow> exn + (bool \<times> cstate)" where
  "if_else_middle s else_block endif_block =
     bnd (is_terminated s) (\<lambda>then_terminated.
     bnd (if then_terminated then Inr s else branch s endif_block) (\<lambda>s1.
       Inr (then_terminated, position_at_start s1 else_block)))"

definition if_else_exit :: "cstate \<Rightarrow> bool \<Rightarrow> nat \<Rightarrow> exn + cstate" where
  "if_else_exit s then_terminated endif_block =
     bnd (is_terminated s) (\<lambda>else_terminated.
     bnd (if else_terminated then Inr s else branch s endif_block) (\<lambda>s1.
       if \<not> then_terminated \<or> \<not> else_terminated
       then Inr (position_at_start s1 endif_block)
       else Inl AttributeError))"

text \<open>\<^verbatim>\<open>__visit_while_statement\<close>, before and after the body.\<close>

definition while_enter :: "cstate \<Rightarrow> ir_value \<Rightarrow> exn + ((nat \<times> nat) \<times> cstate)" where
  "while_enter s test =
     (case increment_counter s of (c, s0) \<Rightarrow>
        bnd (append_basic_block s0 (''while_loop_entry_'' @ str_int c)) (\<lambda>(while_loop_entry, s1).
        bnd (append_basic_block s1 (''while_loop_otherwise_'' @ str_int (counter s1)))
          (\<lambda>(while_loop_otherwise, s2).
        bnd (cbranch s2 test while_loop_entry while_loop_otherwise) (\<lambda>s3.
          Inr ((while_loop_entry, while_loop_otherwise),
               position_at_start s3 while_loop_entry)))))"

definition while_exit :: "cstate \<Rightarrow> ir_value \<Rightarrow> nat \<Rightarrow> nat \<Rightarrow> exn + cstate" where
  "while_exit s test while_loop_entry while_loop_otherwise =
     bnd (cbranch s test while_loop_entry while_loop_otherwise) (\<lambda>s1.
       Inr (position_at_start s1 while_loop_otherwise))"

definition visit_break_statement :: "cstate \<Rightarrow> exn + cstate" where
  "visit_break_statement s =
     (if breakpoints s = [] then Inl IndexError else branch s (last (breakpoints s)))"

definition visit_continue_statement :: "cstate \<Rightarrow> exn + cstate" where
  "visit_continue_statement s =
     (if continues s = [] then Inl IndexError else branch s (last (continues s)))"

text \<open>
  \<^verbatim>\<open>__visit_for_statement\<close>: the new scope, the part between the declaration and the body, and
  the part after the condition.  The source does not restore the previous scope.
\<close>

definition for_scope :: "cstate \<Rightarrow> cstate" where
  "for_scope s = s\<lparr>env := Environment [] (Some (env s)) ''global''\<rparr>"

definition for_enter :: "cstate \<Rightarrow> exn + ((nat \<times> nat) \<times> cstate)" where
  "for_enter s =
     (case increment_counter s of (c, s0) \<Rightarrow>
        bnd (append_basic_block s0 (''for_loop_entry_'' @ str_int c)) (\<lambda>(for_loop_entry, s1).
        bnd (append_basic_block s1 (''for_loop_otherwise_'' @ str_int (counter s1)))
          (\<lambda>(for_loop_otherwise, s2).
        let s3 = s2\<lparr>breakpoints := breakpoints s2 @ [for_loop_otherwise],
                    continues := continues s2 @ [for_loop_entry]\<rparr>
        in bnd (branch s3 for_loop_entry) (\<lambda>s4.
             Inr ((for_loop_entry, for_loop_otherwise),
                  position_at_start s4 for_loop_entry)))))"

definition for_exit :: "cstate \<Rightarrow> ir_value \<Rightarrow> nat \<Rightarrow> nat \<Rightarrow> exn + cstate" where
  "for_exit s test for_loop_entry for_loop_otherwise =
     bnd (cbranch s test for_loop_entry for_loop_otherwise) (\<lambda>s1.
       let s2 = position_at_start s1 for_loop_otherwise
       in if breakpoints s2 = [] then Inl IndexError
          else if continues s2 = [] then Inl IndexError
          else Inr (s2\<lparr>breakpoints := butlast (breakpoints s2),
                       continues := butlast (continues s2)\<rparr>))"

subsection \<open>Expressions\<close>

text \<open>
  \<^verbatim>\<open>__convert_string\<close>: the two characters backslash and \<open>n\<close> become a line feed followed by a
  zero byte, a zero byte ends the text, and the text becomes the initializer of a new internal
  constant global named after the incremented counter.
\<close>

fun replace_newline :: "string \<Rightarrow> string" where
  "replace_newline (a # b # cs) =
     (if a = CHR 0x5C \<and> b = CHR ''n'' then CHR 0x0A # CHR 0x00 # replace_newline cs
      else a # replace_newline (b # cs))"
| "replace_newline cs = cs"

definition convert_string :: "cstate \<Rightarrow> string \<Rightarrow> exn + ((ir_value \<times> ir_type option) \<times> cstate)" where
  "convert_string s string =
     (let fmt = replace_newline string @ [CHR 0x00];
          arrty = ArrayType (IntType 8) (length fmt);
          c_fmt = Constant arrty (CBytes fmt)
      in case increment_counter s of (c, s1) \<Rightarrow>
           bnd (add_global s1 (''__str_'' @ str_int c) (GVar arrty (Some c_fmt) True ''internal''))
             (\<lambda>s2. Inr ((GlobalVariable (''__str_'' @ str_int c) arrty,
                          Some (PointerType arrty)), s2)))"

definition power_operation_float ::
  "cstate \<Rightarrow> ir_value \<Rightarrow> ir_value \<Rightarrow> ir_type \<Rightarrow> exn + (ir_value \<times> cstate)" where
  "power_operation_float s base exponent result_type =
     (let pow_func_name = (if result_type = DoubleType then ''llvm.pow.f64'' else ''llvm.pow.f32'');
          pow_func_type = FunctionType result_type [result_type, result_type] False
      in case get_global s pow_func_name of
           Inr pow_func \<Rightarrow> call s pow_func [base, exponent]
         | Inl e \<Rightarrow>
             bnd (add_global s pow_func_name (GFunc pow_func_type)) (\<lambda>s1.
               call s1 (Function pow_func_name pow_func_type) [base, exponent]))"

definition power_operation ::
  "cstate \<Rightarrow> ir_value \<Rightarrow> ir_value \<Rightarrow> ir_type \<Rightarrow> exn + (ir_value \<times> cstate)" where
  "power_operation s base exponent result_type =
     bnd (castop s ''sitofp'' base FloatType) (\<lambda>(base_float, s1).
     bnd (castop s1 ''sitofp'' exponent FloatType) (\<lambda>(exp_float, s2).
     bnd (power_operation_float s2 base_float exp_float FloatType) (\<lambda>(result_float, s3).
       castop s3 ''fptosi'' result_float result_type)))"

text \<open>\<^verbatim>\<open>isinstance(t, ir.IntType)\<close> and \<^verbatim>\<open>isinstance(t, ir.FloatType)\<close>.\<close>

fun is_int_type :: "ir_type option \<Rightarrow> bool" where
  "is_int_type (Some (IntType w)) = True"
| "is_int_type t = False"

fun is_float_type :: "ir_type option \<Rightarrow> bool" where
  "is_float_type (Some FloatType) = True"
| "is_float_type t = False"

definition typed :: "ir_type \<Rightarrow> exn + (ir_value \<times> cstate) \<Rightarrow> exn + ((ir_value \<times> ir_type option) \<times> cstate)" where
  "typed t m = bnd m (\<lambda>(v, s). Inr ((v, Some t), s))"

text \<open>\<^verbatim>\<open>__visit_infix_expression\<close>, after both operands have been resolved.\<close>

definition infix_emit ::
  "cstate \<Rightarrow> string \<Rightarrow> ir_value \<times> ir_type option \<Rightarrow> ir_value \<times> ir_type option \<Rightarrow>
     exn + ((ir_value \<times> ir_type option) \<times> cstate)" where
  "infix_emit s operator l r =
     (case l of (left_value, left_type) \<Rightarrow>
      case r of (right_value, right_type) \<Rightarrow>
        if is_int_type right_type \<and> is_int_type left_type then
          (if operator = ''+'' then typed (IntType 32) (binop s ''add'' left_value right_value)
           else if operator = ''-'' then typed (IntType 32) (binop s ''sub'' left_value right_value)
           else if operator = ''*'' then typed (IntType 32) (binop s ''mul'' left_value right_value)
           else if operator = ''/'' then typed (IntType 32) (binop s ''sdiv'' left_value right_value)
           else if operator = ''%'' then typed (IntType 32) (binop s ''srem'' left_value right_value)
           else if operator = ''^'' then
             typed (IntType 32) (power_operation s left_value right_value (IntType 32))
           else if operator = ''<'' then typed (IntType 1) (icmp_signed s ''<'' left_value right_value)
           else if operator = ''<='' then typed (IntType 1) (icmp_signed s ''<='' left_value right_value)
           else if operator = ''>'' then typed (IntType 1) (icmp_signed s ''>'' left_value right_value)
           else if operator = ''>='' then typed (IntType 1) (icmp_signed s ''>='' left_value right_value)
           else if operator = ''=='' then typed (IntType 1) (icmp_signed s ''=='' left_value right_value)
           else Inr ((NoneValue, Some (IntType 32)), s))
        else if is_float_type right_type \<and> is_float_type left_type then
          (if operator = ''+'' then typed FloatType (binop s ''fadd'' left_value right_value)
           else if operator = ''-'' then typed FloatType (binop s ''fsub'' left_value right_value)
           else if operator = ''*'' then typed FloatType (binop s ''fmul'' left_value right_value)
           else if operator = ''/'' then typed FloatType (binop s ''fdiv'' left_value right_value)
           else if operator = ''%'' then typed FloatType (binop s ''frem'' left_value right_value)
           else if operator = ''^'' then
             typed FloatType (power_operation_float s left_value right_value FloatType)
           else if operator = ''<'' then typed (IntType 1) (fcmp_ordered s ''<'' left_value right_value)
           else if operator = ''<='' then typed (IntType 1) (fcmp_ordered s ''<='' left_value right_value)
           else if operator = ''>'' then typed (IntType 1) (fcmp_ordered s ''>'' left_value right_value)
           else if operator = ''>='' then typed (IntType 1) (fcmp_ordered s ''>='' left_value right_value)
           else if operator = ''=='' then typed (IntType 1) (fcmp_ordered s ''=='' left_value right_value)
           else Inr ((NoneValue, Some FloatType), s))
        else Inr ((NoneValue, None), s))"

text \<open>
  \<^verbatim>\<open>builtin_printf\<close>.  \<^verbatim>\<open>isinstance(params[0], ir.LoadInstr)\<close> tells whether the first argument
  is a load instruction, of which the source then reads \<^verbatim>\<open>operands[0]\<close>.
\<close>

fun load_instr_operands :: "ir_value \<Rightarrow> ir_value list option" where
  "load_instr_operands (Instruction k OpLoad ops t) = Some ops"
| "load_instr_operands v = None"

definition builtin_printf ::
  "cstate \<Rightarrow> ir_value list \<Rightarrow> ir_type option \<Rightarrow> exn + (ir_value \<times> cstate)" where
  "builtin_printf s params return_type =
     (case lookup (env s) ''printf'' of
        None \<Rightarrow> Inl TypeError
      | Some (func, t) \<Rightarrow>
          (case return_type of
             None \<Rightarrow> Inl AttributeError
           | Some rt \<Rightarrow>
               bnd (alloca s rt) (\<lambda>(c_str, s1).
                 case params of
                   [] \<Rightarrow> Inl IndexError
                 | p0 # rest_params \<Rightarrow>
                     bnd (store s1 p0 c_str) (\<lambda>(st, s2).
                       case load_instr_operands p0 of
                         Some ops \<Rightarrow>
                           (case ops of
                              [] \<Rightarrow> Inl IndexError
                            | g_var_ptr # others \<Rightarrow>
                                bnd (load s2 g_var_ptr) (\<lambda>(string_val, s3).
                                bnd (castop s3 ''bitcast'' string_val (PointerType (IntType 8)))
                                  (\<lambda>(fmt_arg, s4). call s4 func (fmt_arg # rest_params))))
                       | None \<Rightarrow>
                           bnd (get_global s2 (''__str_'' @ str_int (counter s2))) (\<lambda>g.
                           bnd (castop s2 ''bitcast'' g (PointerType (IntType 8)))
                             (\<lambda>(fmt_arg, s3). call s3 func (fmt_arg # rest_params)))))))"

text \<open>\<^verbatim>\<open>__visit_call_expression\<close>, after the arguments have been resolved.\<close>

definition call_emit ::
  "cstate \<Rightarrow> string \<Rightarrow> ir_value list \<Rightarrow> ir_type option list \<Rightarrow>
     exn + ((ir_value \<times> ir_type option) \<times> cstate)" where
  "call_emit s n args types =
     (if n = ''printf'' then
        (case types of
           [] \<Rightarrow> Inl IndexError
         | t # ts \<Rightarrow> typed (IntType 32) (builtin_printf s args t))
      else
        (case lookup (env s) n of
           None \<Rightarrow> Inl TypeError
         | Some (func, ret_type) \<Rightarrow> typed ret_type (call s func args)))"

text \<open>\<^verbatim>\<open>print(node.value)\<close> of a Python boolean writes a line to the standard output.\<close>

definition print_bool :: "cstate \<Rightarrow> bool \<Rightarrow> cstate" where
  "print_bool s b = s\<lparr>stdout := stdout s @ [if b then ''True'' else ''False'']\<rparr>"

subsection \<open>The recursive walk\<close>

text \<open>
  \<^verbatim>\<open>compile\<close> dispatches on the kind of the node; a kind without a case falls through the
  \<^verbatim>\<open>match\<close> statement.  \<^verbatim>\<open>__resolve_value\<close> returns \<^verbatim>\<open>None\<close> for a kind without a case.  The two
  expression visitors read the fields of an infix or call node; any other node has no such
  fields.
\<close>

fun compile :: "cstate \<Rightarrow> node \<Rightarrow> exn + cstate"
  and compile_list :: "cstate \<Rightarrow> node list \<Rightarrow> exn + cstate"
  and resolve_value :: "cstate \<Rightarrow> node \<Rightarrow> exn + ((ir_value \<times> ir_type option) option \<times> cstate)"
  and resolve_list ::
    "cstate \<Rightarrow> node list \<Rightarrow> exn + ((ir_value list \<times> ir_type option list) \<times> cstate)"
  and visit_infix_expression ::
    "cstate \<Rightarrow> node \<Rightarrow> exn + ((ir_value \<times> ir_type option) \<times> cstate)"
  and visit_call_expression ::
    "cstate \<Rightarrow> node \<Rightarrow> exn + ((ir_value \<times> ir_type option) \<times> cstate)"
where
  "compile s (Program stmts) = compile_list s stmts"
| "compile s (ExpressionStatement e) = compile s e"
| "compile s (LetStatement n v vt) =
     (case unpack (resolve_value s v) of
        Inl e \<Rightarrow> Inl e
      | Inr (r, s1) \<Rightarrow> let_store s1 n r)"
| "compile s (FunctionStatement n params return_type body) =
     (case function_enter s n params return_type of
        Inl e \<Rightarrow> Inl e
      | Inr (previous_env, previous_builder, s1) \<Rightarrow>
          (case compile s1 body of
             Inl e \<Rightarrow> Inl e
           | Inr s2 \<Rightarrow> Inr (function_leave s2 previous_env previous_builder)))"
| "compile s (BlockStatement stmts) = compile_list s stmts"
| "compile s (ReturnStatement v) =
     (case unpack (resolve_value s v) of
        Inl e \<Rightarrow> Inl e
      | Inr ((val, T), s1) \<Rightarrow> ret s1 val)"
| "compile s (AssignStatement n v) =
     (case unpack (resolve_value s v) of
        Inl e \<Rightarrow> Inl e
      | Inr (r, s1) \<Rightarrow> assign_store s1 n r)"
| "compile s (IfStatement condition consequence None) =
     (case unpack (resolve_value s condition) of
        Inl e \<Rightarrow> Inl e
      | Inr ((test, T), s1) \<Rightarrow>
          (case if_then_enter s1 test of
             Inl e \<Rightarrow> Inl e
           | Inr (bbend, s2) \<Rightarrow>
               (case compile s2 consequence of
                  Inl e \<Rightarrow> Inl e
                | Inr s3 \<Rightarrow> if_then_exit s3 bbend)))"
| "compile s (IfStatement condition consequence (Some alternative)) =
     (case unpack (resolve_value s condition) of
        Inl e \<Rightarrow> Inl e
      | Inr ((test, T), s1) \<Rightarrow>
          (case if_else_enter s1 test of
             Inl e \<Rightarrow> Inl e
           | Inr ((else_block, endif_block), s2) \<Rightarrow>
               (case compile s2 consequence of
                  Inl e \<Rightarrow> Inl e
                | Inr s3 \<Rightarrow>
                    (case if_else_middle s3 else_block endif_block of
                       Inl e \<Rightarrow> Inl e
                     | Inr (then_terminated, s4) \<Rightarrow>
                         (case compile s4 alternative of
                            Inl e \<Rightarrow> Inl e
                          | Inr s5 \<Rightarrow> if_else_exit s5 then_terminated endif_block)))))"
| "compile s (WhileStatement condition body) =
     (case unpack (resolve_value s condition) of
        Inl e \<Rightarrow> Inl e
      | Inr ((test, T), s1) \<Rightarrow>
          (case while_enter s1 test of
             Inl e \<Rightarrow> Inl e
           | Inr ((while_loop_entry, while_loop_otherwise), s2) \<Rightarrow>
               (case compile s2 body of
                  Inl e \<Rightarrow> Inl e
                | Inr s3 \<Rightarrow>
                    (case unpack (resolve_value s3 condition) of
                       Inl e \<Rightarrow> Inl e
                     | Inr ((test', T'), s4) \<Rightarrow>
                         while_exit s4 test' while_loop_entry while_loop_otherwise))))"
| "compile s BreakStatement = visit_break_statement s"
| "compile s ContinueStatement = visit_continue_statement s"
| "compile s (ForStatement var_declaration condition action body) =
     (case compile (for_scope s) var_declaration of
        Inl e \<Rightarrow> Inl e
      | Inr s1 \<Rightarrow>
          (case for_enter s1 of
             Inl e \<Rightarrow> Inl e
           | Inr ((for_loop_entry, for_loop_otherwise), s2) \<Rightarrow>
               (case compile s2 body of
                  Inl e \<Rightarrow> Inl e
                | Inr s3 \<Rightarrow>
                    (case compile s3 action of
                       Inl e \<Rightarrow> Inl e
                     | Inr s4 \<Rightarrow>
                         (case unpack (resolve_value s4 condition) of
                            Inl e \<Rightarrow> Inl e
                          | Inr ((test, T), s5) \<Rightarrow>
                              for_exit s5 test for_loop_entry for_loop_otherwise)))))"
| "compile s (InfixExpression l operator r) =
     (case visit_infix_expression s (InfixExpression l operator r) of
        Inl e \<Rightarrow> Inl e
      | Inr (res, s1) \<Rightarrow> Inr s1)"
| "compile s (CallExpression n params) =
     (case visit_call_expression s (CallExpression n params) of
        Inl e \<Rightarrow> Inl e
      | Inr (res, s1) \<Rightarrow> Inr s1)"
| "compile s (IntegerLiteral i) = Inr s"
| "compile s (FloatLiteral x) = Inr s"
| "compile s (IdentifierLiteral n) = Inr s"
| "compile s (BooleanLiteral b) = Inr s"
| "compile s (StringLiteral str) = Inr s"
| "compile s (FunctionParameter n vt) = Inr s"
| "compile_list s [] = Inr s"
| "compile_list s (stmt # stmts) =
     (case compile s stmt of
        Inl e \<Rightarrow> Inl e
      | Inr s1 \<Rightarrow> compile_list s1 stmts)"
| "resolve_value s (IntegerLiteral i) =
     Inr (Some (Constant (IntType 32) (CInt i), Some (IntType 32)), s)"
| "resolve_value s (FloatLiteral x) =
     Inr (Some (Constant FloatType (CFloat x), Some FloatType), s)"
| "resolve_value s (IdentifierLiteral n) =
     (case lookup (env s) n of
        None \<Rightarrow> Inl TypeError
      | Some (ptr, t) \<Rightarrow>
          (case load s ptr of
             Inl e \<Rightarrow> Inl e
           | Inr (v, s1) \<Rightarrow> Inr (Some (v, Some t), s1)))"
| "resolve_value s (BooleanLiteral b) =
     Inr (Some (Constant (IntType 1) (CInt (if b then 1 else 0)), Some (IntType 1)),
          print_bool s b)"
| "resolve_value s (StringLiteral str) =
     (case convert_string s str of
        Inl e \<Rightarrow> Inl e
      | Inr (r, s1) \<Rightarrow> Inr (Some r, s1))"
| "resolve_value s (InfixExpression l operator r) =
     (case visit_infix_expression s (InfixExpression l operator r) of
        Inl e \<Rightarrow> Inl e
      | Inr (res, s1) \<Rightarrow> Inr (Some res, s1))"
| "resolve_value s (CallExpression n params) =
     (case visit_call_expression s (CallExpression n params) of
        Inl e \<Rightarrow> Inl e
      | Inr (res, s1) \<Rightarrow> Inr (Some res, s1))"
| "resolve_value s (Program stmts) = Inr (None, s)"
| "resolve_value s (ExpressionStatement e) = Inr (None, s)"
| "resolve_value s (LetStatement n v vt) = Inr (None, s)"
| "resolve_value s (FunctionStatement n params return_type body) = Inr (None, s)"
| "resolve_value s (BlockStatement stmts) = Inr (None, s)"
| "resolve_value s (ReturnStatement v) = Inr (None, s)"
| "resolve_value s (AssignStatement n v) = Inr (None, s)"
| "resolve_value s (IfStatement condition consequence alternative) = Inr (None, s)"
| "resolve_value s (WhileStatement condition body) = Inr (None, s)"
| "resolve_value s BreakStatement = Inr (None, s)"
| "resolve_value s ContinueStatement = Inr (None, s)"
| "resolve_value s (ForStatement var_declaration condition action body) = Inr (None, s)"
| "resolve_value s (FunctionParameter n vt) = Inr (None, s)"
| "resolve_list s [] = Inr (([], []), s)"
| "resolve_list s (x # xs) =
     (case unpack (resolve_value s x) of
        Inl e \<Rightarrow> Inl e
      | Inr ((p_val, p_type), s1) \<Rightarrow>
          (case resolve_list s1 xs of
             Inl e \<Rightarrow> Inl e
           | Inr ((args, types), s2) \<Rightarrow> Inr ((p_val # args, p_type # types), s2)))"
| "visit_infix_expression s (InfixExpression l operator r) =
     (case unpack (resolve_value s l) of
        Inl e \<Rightarrow> Inl e
      | Inr (left, s1) \<Rightarrow>
          (case unpack (resolve_value s1 r) of
             Inl e \<Rightarrow> Inl e
           | Inr (right, s2) \<Rightarrow> infix_emit s2 operator left right))"
| "visit_infix_expression s n = Inl AttributeError"
| "visit_call_expression s (CallExpression n params) =
     (case resolve_list s params of
        Inl e \<Rightarrow> Inl e
      | Inr ((args, types), s1) \<Rightarrow> call_emit s1 n args types)"
| "visit_call_expression s n = Inl AttributeError"

section \<open>Auxiliary notions for the statements\<close>

text \<open>The node kinds that have a case in the \<^verbatim>\<open>match\<close> statement of \<^verbatim>\<open>compile\<close>.\<close>

fun has_case :: "node \<Rightarrow> bool" where
  "has_case (Program stmts) = True"
| "has_case (ExpressionStatement e) = True"
| "has_case (LetStatement n v vt) = True"
| "has_case (FunctionStatement n params return_type body) = True"
| "has_case (BlockStatement stmts) = True"
| "has_case (ReturnStatement v) = True"
| "has_case (AssignStatement n v) = True"
| "has_case (IfStatement c t e) = True"
| "has_case (WhileStatement c b) = True"
| "has_case BreakStatement = True"
| "has_case ContinueStatement = True"
| "has_case (ForStatement d c a b) = True"
| "has_case (InfixExpression l operator r) = True"
| "has_case (CallExpression n params) = True"
| "has_case n = False"

text \<open>
  The state in which the instructions \<open>is\<close> have been created one after the other and put
  at the cursor, which stands in block \<open>a\<close>.
\<close>

definition inserted :: "cstate \<Rightarrow> nat \<Rightarrow> ir_value list \<Rightarrow> cstate" where
  "inserted s a is =
     (let b = blocks (module s) ! a;
          n = anchor (builder s)
      in s\<lparr>module := (module s)
             \<lparr>blocks := (blocks (module s))
                 [a := b\<lparr>instructions := take n (instructions b) @ is @ drop n (instructions b)\<rparr>],
              serial := serial (module s) + length is\<rparr>,
           builder := (builder s)\<lparr>anchor := n + length is\<rparr>\<rparr>)"

section \<open>Terminators and reachable blocks\<close>

text \<open>The terminator instructions are the branches and the return.\<close>

fun is_terminator_op :: "opcode \<Rightarrow> bool" where
  "is_terminator_op OpBr = True"
| "is_terminator_op OpCBr = True"
| "is_terminator_op OpRet = True"
| "is_terminator_op opc = False"

fun is_terminator :: "ir_value \<Rightarrow> bool" where
  "is_terminator (Instruction k opc ops t) = is_terminator_op opc"
| "is_terminator v = False"

definition terminators :: "ir_block \<Rightarrow> ir_value list" where
  "terminators b = filter is_terminator (instructions b)"

text \<open>The blocks that the terminator of a block branches to.\<close>

fun block_operands :: "ir_value list \<Rightarrow> nat list" where
  "block_operands [] = []"
| "block_operands (Block a # vs) = a # block_operands vs"
| "block_operands (v # vs) = block_operands vs"

definition successors :: "ir_block \<Rightarrow> nat list" where
  "successors b =
     (case terminator b of
        Some (Instruction k opc ops t) \<Rightarrow> block_operands ops
      | _ \<Rightarrow> [])"

text \<open>
  The entry block of a function is its first block.  A block is reachable when a path of
  branches leads to it from the entry block of a function.
\<close>

definition entry_block :: "ir_module \<Rightarrow> nat \<Rightarrow> bool" where
  "entry_block m a \<longleftrightarrow>
     a < length (blocks m) \<and>
     list_all (\<lambda>b. block_function b \<noteq> block_function (blocks m ! a)) (take a (blocks m))"

inductive reachable :: "ir_module \<Rightarrow> nat \<Rightarrow> bool" for m :: ir_module where
  entry: "entry_block m a \<Longrightarrow> reachable m a"
| step: "reachable m a \<Longrightarrow> a < length (blocks m) \<Longrightarrow> b \<in> set (successors (blocks m ! a))
         \<Longrightarrow> reachable m b"

text \<open>
  The invariant of the generator: in every block the terminator instructions of the
  instruction list are the recorded terminator alone, or none; every block belongs to a
  function of the module; the cursor stands in a reachable block of the store; and every
  block that has an instruction is reachable.
\<close>

definition block_ok :: "ir_block \<Rightarrow> bool" where
  "block_ok b \<longleftrightarrow> terminators b = (case terminator b of None \<Rightarrow> [] | Some t \<Rightarrow> [t])"

definition cursor_ok :: "ir_module \<Rightarrow> nat option \<Rightarrow> bool" where
  "cursor_ok m c \<longleftrightarrow> (case c of None \<Rightarrow> True | Some a \<Rightarrow> a < length (blocks m) \<and> reachable m a)"

definition inv :: "cstate \<Rightarrow> bool" where
  "inv s \<longleftrightarrow>
     list_all block_ok (blocks (module s))
     \<and> list_all (\<lambda>b. block_function b \<in> fst ` set (globals (module s))) (blocks (module s))
     \<and> cursor_ok (module s) (block (builder s))
     \<and> list_all (\<lambda>a. instructions (blocks (module s) ! a) = [] \<or> reachable (module s) a)
          [0 ..< length (blocks (module s))]"

text \<open>
  The module \<open>m'\<close> extends the module \<open>m\<close>: it has the blocks of \<open>m\<close>, in the same functions and
  with at least the branches they had, and the globals of \<open>m\<close>.
\<close>

definition extends :: "ir_module \<Rightarrow> ir_module \<Rightarrow> bool" where
  "extends m m' \<longleftrightarrow>
     length (blocks m) \<le> length (blocks m')
     \<and> fst ` set (globals m) \<subseteq> fst ` set (globals m')
     \<and> list_all (\<lambda>a. block_function (blocks m' ! a) = block_function (blocks m ! a)
                      \<and> set (successors (blocks m ! a)) \<subseteq> set (successors (blocks m' ! a)))
          [0 ..< length (blocks m)]"

definition good :: "cstate \<Rightarrow> cstate \<Rightarrow> bool" where
  "good s s' \<longleftrightarrow> inv s' \<and> extends (module s) (module s')"

section \<open>Example programs\<close>


text \<open>
  The test case \<^verbatim>\<open>conditional_logic\<close> of \<^verbatim>\<open>test_runner.py\<close>:
  \<^verbatim>\<open>fn main() -> int { let x: int = 5; if x < 10 { return 1; } else { return 0; } }\<close>
\<close>

definition ex_if_else_returns :: node where
  "ex_if_else_returns =
     Program [FunctionStatement ''main'' [] ''int''
       (BlockStatement
         [LetStatement ''x'' (IntegerLiteral 5) ''int'',
          IfStatement (InfixExpression (IdentifierLiteral ''x'') ''<'' (IntegerLiteral 10))
            (BlockStatement [ReturnStatement (IntegerLiteral 1)])
            (Some (BlockStatement [ReturnStatement (IntegerLiteral 0)]))])]"

text \<open>\<^verbatim>\<open>fn main() -> int { while 1 < 2 { break; } return 0; }\<close>\<close>

definition ex_while_break :: node where
  "ex_while_break =
     Program [FunctionStatement ''main'' [] ''int''
       (BlockStatement
         [WhileStatement (InfixExpression (IntegerLiteral 1) ''<'' (IntegerLiteral 2))
            (BlockStatement [BreakStatement]),
          ReturnStatement (IntegerLiteral 0)])]"

text \<open>
  \<^verbatim>\<open>fn main() -> int { for (let i: int = 0; i < 10; i = i + 1) { while i < 5 { if i == 3 { break; } } } return 0; }\<close>
\<close>

definition ex_for_while_break :: node where
  "ex_for_while_break =
     Program [FunctionStatement ''main'' [] ''int''
       (BlockStatement
         [ForStatement (LetStatement ''i'' (IntegerLiteral 0) ''int'')
            (InfixExpression (IdentifierLiteral ''i'') ''<'' (IntegerLiteral 10))
            (AssignStatement ''i''
               (InfixExpression (IdentifierLiteral ''i'') ''+'' (IntegerLiteral 1)))
            (BlockStatement
              [WhileStatement (InfixExpression (IdentifierLiteral ''i'') ''<'' (IntegerLiteral 5))
                 (BlockStatement
                   [IfStatement
                      (InfixExpression (IdentifierLiteral ''i'') ''=='' (IntegerLiteral 3))
                      (BlockStatement [BreakStatement]) None])]),
          ReturnStatement (IntegerLiteral 0)])]"

text \<open>\<^verbatim>\<open>fn main() -> int { return 1 + 2.5; }\<close>\<close>

definition ex_mixed :: node where
  "ex_mixed =
     Program [FunctionStatement ''main'' [] ''int''
       (BlockStatement
         [ReturnStatement (InfixExpression (IntegerLiteral 1) ''+'' (FloatLiteral (5 / 2)))])]"

text \<open>\<^verbatim>\<open>foo(); x = 1;\<close> and \<^verbatim>\<open>fn main() -> int { return y; } x = 1;\<close>\<close>

definition ex_unresolved_call :: node where
  "ex_unresolved_call =
     Program [ExpressionStatement (CallExpression ''foo'' []),
              AssignStatement ''x'' (IntegerLiteral 1)]"

definition ex_unresolved_identifier :: node where
  "ex_unresolved_identifier =
     Program [FunctionStatement ''main'' [] ''int''
                (BlockStatement [ReturnStatement (IdentifierLiteral ''y'')]),
              AssignStatement ''x'' (IntegerLiteral 1)]"

text \<open>\<^verbatim>\<open>x = 1; y = 2;\<close>\<close>

definition ex_two_assignments :: node where
  "ex_two_assignments =
     Program [AssignStatement ''x'' (IntegerLiteral 1),
              AssignStatement ''y'' (IntegerLiteral 2)]"

text \<open>\<^verbatim>\<open>fn main() -> int { let b: bool = true; return 0; }\<close>\<close>

definition ex_bool :: node where
  "ex_bool =
     Program [FunctionStatement ''main'' [] ''int''
       (BlockStatement
         [LetStatement ''b'' (BooleanLiteral True) ''bool'',
          ReturnStatement (IntegerLiteral 0)])]"

text \<open>A scope below the global one.\<close>

definition child_scope :: environment where
  "child_scope = Environment [] (Some initial_env) ''global''"



section \<open>Properties of the symbol table\<close>

lemma lookup_own: "map_of (records e) n = Some b \<Longrightarrow> lookup e n = Some b"
  by (cases e) (simp add: lookup_def)

lemma lookup_parent:
  "map_of (records e) n = None \<Longrightarrow> parent e = Some q \<Longrightarrow> lookup e n = lookup q n"
  by (cases e) (simp add: lookup_def)

lemma lookup_chain_None:
  "lookup e n = None \<longleftrightarrow> (\<forall>a \<in> set (chain e). map_of (records a) n = None)"
proof (induction e)
  case (Environment r p nm)
  show ?case
  proof (cases "map_of r n")
    case None
    then show ?thesis
      using Environment by (cases p) (auto simp: lookup_def)
  next
    case (Some b)
    then show ?thesis by (auto simp: lookup_def)
  qed
qed

lemma lookup_define_same: "lookup (env_define e n v t) n = Some (v, t)"
  by (cases e) (simp add: lookup_def env_define_def update_conv')

lemma lookup_chain_Some:
  "chain e = pre @ a # post \<Longrightarrow> \<forall>c \<in> set pre. map_of (records c) n = None \<Longrightarrow>
   map_of (records a) n = Some b \<Longrightarrow> lookup e n = Some b"
proof (induction pre arbitrary: e)
  case Nil
  then have "a = e" by (cases e) simp
  with Nil show ?case by (simp add: lookup_own)
next
  case (Cons c pre)
  obtain r p nm where e: "e = Environment r p nm" by (cases e)
  with Cons.prems(1) have c: "c = e"
    and rest: "(case p of Some q \<Rightarrow> chain q | None \<Rightarrow> []) = pre @ a # post"
    by simp_all
  from rest obtain q where p: "p = Some q" and q: "chain q = pre @ a # post"
    by (cases p) simp_all
  from Cons.prems(2) c have none: "map_of (records e) n = None" by simp
  have "lookup q n = Some b"
    using Cons.IH [OF q] Cons.prems(2,3) by simp
  then show ?case
    using lookup_parent [OF none, of q] e p by simp
qed

lemma resolve_state_frame: "resolve_state e n = (lookup e n, e)"
proof (induction e)
  case (Environment r p nm)
  show ?case
  proof (cases "map_of r n")
    case None
    then show ?thesis
      using Environment by (cases p) (auto simp: lookup_def)
  next
    case (Some b)
    then show ?thesis by (simp add: lookup_def)
  qed
qed

text \<open>
  Claim C8.  A lookup right after a definition of the same name in the same scope returns the
  pair of storage and type just defined.  A name that the scopes before \<open>a\<close> in the chain do
  not have and that the scope \<open>a\<close> has is found from the scope at the head of the chain, with
  the binding of \<open>a\<close>: this covers every ancestor at any depth.  A name that no scope of the
  chain has is not found.  A lookup leaves the environment and all its ancestors as they were:
  the method with the environment made explicit returns the result of \<open>lookup\<close> and the
  environment it was called on.
\<close>

theorem symbol_table_lookup:
  "lookup (env_define e n v t) n = Some (v, t)
   \<and> (chain e = pre @ a # post \<and> (\<forall>c \<in> set pre. map_of (records c) n = None)
        \<and> map_of (records a) n = Some b \<longrightarrow> lookup e n = Some b)
   \<and> ((\<forall>c \<in> set (chain e). map_of (records c) n = None) \<longrightarrow> lookup e n = None)
   \<and> resolve_state e n = (lookup e n, e)"
  using lookup_define_same lookup_chain_Some lookup_chain_None resolve_state_frame by blast

theorem symbol_table_lookup_witness:
  "lookup (env_define child_scope ''x'' (Block 0) VoidType) ''x'' = Some (Block 0, VoidType)
   \<and> chain child_scope = [child_scope] @ initial_env # []
   \<and> map_of (records child_scope) ''printf'' = None
   \<and> map_of (records initial_env) ''printf'' = Some (Function ''printf'' printf_type, IntType 32)
   \<and> lookup child_scope ''printf'' = Some (Function ''printf'' printf_type, IntType 32)
   \<and> map_of (records child_scope) ''y'' = None
   \<and> map_of (records initial_env) ''y'' = None
   \<and> lookup child_scope ''y'' = None
   \<and> resolve_state child_scope ''printf'' =
       (Some (Function ''printf'' printf_type, IntType 32), child_scope)"
proof -
  have 1: "chain child_scope = [child_scope] @ initial_env # []"
    by (simp add: child_scope_def initial_env_def env_define_def)
  have 2: "map_of (records child_scope) ''printf'' = None"
    by (simp add: child_scope_def)
  have 3: "map_of (records initial_env) ''printf'' =
      Some (Function ''printf'' printf_type, IntType 32)"
    by (simp add: initial_env_def env_define_def)
  have 4: "map_of (records child_scope) ''y'' = None"
    by (simp add: child_scope_def)
  have 5: "map_of (records initial_env) ''y'' = None"
    by (simp add: initial_env_def env_define_def)
  have 6: "\<forall>c \<in> set [child_scope]. map_of (records c) ''printf'' = None"
    using 2 by simp
  have 7: "\<forall>c \<in> set (chain child_scope). map_of (records c) ''y'' = None"
    using 1 4 5 by simp
  show ?thesis
    using 1 2 3 4 5 6 7
      symbol_table_lookup [where e = child_scope and n = "''x''" and v = "Block 0" and t = VoidType]
      symbol_table_lookup [where e = child_scope and n = "''printf''" and pre = "[child_scope]"
         and a = initial_env and post = "[]"
         and b = "(Function ''printf'' printf_type, IntType 32)"]
      symbol_table_lookup [where e = child_scope and n = "''y''"]
    by simp
qed

section \<open>The dispatch of compile\<close>

text \<open>
  Claim C10.  For a node whose kind has no case in the \<^verbatim>\<open>match\<close> statement of \<^verbatim>\<open>compile\<close>
  (the literal kinds and the function parameter), \<^verbatim>\<open>compile\<close> returns without raising and
  leaves the whole state as it was: nothing is emitted and no error is recorded.
\<close>

theorem compile_without_case: "\<not> has_case n \<Longrightarrow> compile s n = Inr s"
  by (cases n) simp_all

theorem compile_without_case_witness:
  "\<not> has_case (IntegerLiteral 5) \<and> compile init (IntegerLiteral 5) = Inr init"
  using compile_without_case [of "IntegerLiteral 5" init] by simp

section \<open>Let and assignment\<close>





lemma inserted_fields [simp]:
  "env (inserted s a is) = env s"
  "errors (inserted s a is) = errors s"
  "counter (inserted s a is) = counter s"
  "breakpoints (inserted s a is) = breakpoints s"
  "continues (inserted s a is) = continues s"
  "stdout (inserted s a is) = stdout s"
  "block (builder (inserted s a is)) = block (builder s)"
  "globals (module (inserted s a is)) = globals (module s)"
  "length (blocks (module (inserted s a is))) = length (blocks (module s))"
  by (simp_all add: inserted_def Let_def)







section \<open>The invariant of the generator\<close>

subsection \<open>Extension of modules and reachability\<close>



lemma extends_iff:
  "extends m m' \<longleftrightarrow>
     length (blocks m) \<le> length (blocks m')
     \<and> fst ` set (globals m) \<subseteq> fst ` set (globals m')
     \<and> (\<forall>a < length (blocks m).
           block_function (blocks m' ! a) = block_function (blocks m ! a)
           \<and> set (successors (blocks m ! a)) \<subseteq> set (successors (blocks m' ! a)))"
  by (auto simp: extends_def list_all_iff)

lemma extends_refl [simp]: "extends m m"
  by (simp add: extends_iff)

lemma extends_trans: "extends m m1 \<Longrightarrow> extends m1 m2 \<Longrightarrow> extends m m2"
  unfolding extends_iff
  by (metis (no_types, lifting) dual_order.trans order_less_le_trans)




lemma good_trans: "good s s1 \<Longrightarrow> good s1 s2 \<Longrightarrow> good s s2"
  by (auto simp: good_def intro: extends_trans)

lemma good_inv: "good s s' \<Longrightarrow> inv s'"
  by (simp add: good_def)







subsection \<open>The operations of the builder\<close>





















subsection \<open>Expressions, let and assignment\<close>


lemma inv_updates [simp]:
  "inv (s\<lparr>env := e\<rparr>) = inv s"
  "inv (s\<lparr>counter := c\<rparr>) = inv s"
  "inv (s\<lparr>errors := er\<rparr>) = inv s"
  "inv (s\<lparr>breakpoints := bs\<rparr>) = inv s"
  "inv (s\<lparr>continues := cs\<rparr>) = inv s"
  "inv (s\<lparr>stdout := out\<rparr>) = inv s"
  by (simp_all add: inv_def)

lemma good_updates [simp]:
  "good s (s'\<lparr>env := e\<rparr>) = good s s'"
  "good s (s'\<lparr>counter := c\<rparr>) = good s s'"
  "good s (s'\<lparr>errors := er\<rparr>) = good s s'"
  "good s (s'\<lparr>breakpoints := bs\<rparr>) = good s s'"
  "good s (s'\<lparr>continues := cs\<rparr>) = good s s'"
  "good s (s'\<lparr>stdout := out\<rparr>) = good s s'"
  "good (s\<lparr>env := e\<rparr>) s' = good s s'"
  "good (s\<lparr>counter := c\<rparr>) s' = good s s'"
  "good (s\<lparr>errors := er\<rparr>) s' = good s s'"
  "good (s\<lparr>breakpoints := bs\<rparr>) s' = good s s'"
  "good (s\<lparr>continues := cs\<rparr>) s' = good s s'"
  "good (s\<lparr>stdout := out\<rparr>) s' = good s s'"
  by (simp_all add: good_def)

text \<open>The steps of the builder in a form that chains: from a state that is good for \<open>s0\<close>.\<close>

lemma chain:
  assumes "good s0 s" and "inv s \<Longrightarrow> good s s'"
  shows "good s0 s'"
  using assms by (meson good_inv good_trans)





















lemma print_bool_good [simp]: "good s0 (print_bool s b) = good s0 s"
  by (simp add: print_bool_def)

subsection \<open>Control flow and functions\<close>

lemma position_at_start_fields [simp]:
  "module (position_at_start s a) = module s"
  "block (builder (position_at_start s a)) = Some a"
  by (simp_all add: position_at_start_def)










lemma for_scope_good [simp]: "inv (for_scope s) = inv s" "good (for_scope s) s' = good s s'"
  by (simp_all add: for_scope_def)






subsection \<open>The recursive walk keeps the invariant\<close>



subsection \<open>The blocks of the emitted module\<close>





section \<open>Runs of the generator on the example programs\<close>

text \<open>
  The end of an if statement with an alternative.  When an arm falls through (the current
  block has no terminator) it gets a branch to the merge block, and the cursor is then put at
  the start of the merge block; a result is returned only if one of the arms fell through.
  When both arms are terminated the end of the statement raises.
\<close>

lemma if_else_exit_falls_through:
  "is_terminated s = Inr False \<Longrightarrow> branch s endif_block = Inr s1 \<Longrightarrow>
   if_else_exit s tt endif_block = Inr (position_at_start s1 endif_block)"
  by (simp add: if_else_exit_def bnd_def)

lemma if_else_exit_then_fell_through:
  "is_terminated s = Inr True \<Longrightarrow>
   if_else_exit s False endif_block = Inr (position_at_start s endif_block)"
  by (simp add: if_else_exit_def bnd_def)

lemma if_else_exit_both_terminated:
  "is_terminated s = Inr True \<Longrightarrow> if_else_exit s True endif_block = Inl AttributeError"
  by (simp add: if_else_exit_def bnd_def)

text \<open>
  Claim C2, at the program of the test case \<^verbatim>\<open>conditional_logic\<close>.  Both arms of the
  conditional end in a return.  The claim says that the merge block is deleted; the source
  calls \<^verbatim>\<open>endif_block.delete()\<close>, a method that llvmlite's blocks do not have, so the
  compilation ends with an \<^verbatim>\<open>AttributeError\<close>.
\<close>

theorem if_else_both_return_raises: "compile init ex_if_else_returns = Inl AttributeError"
  unfolding ex_if_else_returns_def by code_simp

text \<open>
  Claim C3.  A \<^verbatim>\<open>break\<close> whose innermost loop is a \<^verbatim>\<open>while\<close> loop: with no \<^verbatim>\<open>for\<close> loop around
  it the stack of break targets is empty and the compilation ends with an \<^verbatim>\<open>IndexError\<close>;
  with a \<^verbatim>\<open>for\<close> loop around the \<^verbatim>\<open>while\<close> loop the branch (in block 5) goes to block 2, the
  exit of the \<^verbatim>\<open>for\<close> loop, and not to block 4, the exit of the \<^verbatim>\<open>while\<close> loop.
\<close>

theorem break_in_while_misses_loop:
  "compile init ex_while_break = Inl IndexError
   \<and> (case compile init ex_for_while_break of
        Inl e \<Rightarrow> False
      | Inr s \<Rightarrow>
          map label (blocks (module s)) =
            [''main_entry'', ''for_loop_entry_1'', ''for_loop_otherwise_1'',
             ''while_loop_entry_2'', ''while_loop_otherwise_2'',
             ''while_loop_entry_2.if'', ''while_loop_entry_2.endif'']
          \<and> terminator (blocks (module s) ! 5) = Some (Instruction 9 OpBr [Block 2] VoidType))"
  unfolding ex_while_break_def ex_for_while_break_def by code_simp

text \<open>
  Claim C4.  An infix expression with an integer operand and a float operand is not
  rejected: the visitor returns the pair of \<^verbatim>\<open>None\<close> and \<^verbatim>\<open>None\<close>, emits nothing and records
  nothing.  In \<^verbatim>\<open>return 1 + 2.5;\<close> the compilation goes on and emits a return without value;
  the error list stays empty.
\<close>

theorem mixed_operands_not_rejected:
  "infix_emit s operator (lv, Some (IntType w)) (rv, Some FloatType) = Inr ((NoneValue, None), s)
   \<and> infix_emit s operator (lv, Some FloatType) (rv, Some (IntType w)) = Inr ((NoneValue, None), s)
   \<and> (case compile init ex_mixed of
        Inl e \<Rightarrow> False
      | Inr s' \<Rightarrow>
          errors s' = []
          \<and> map instructions (blocks (module s')) = [[Instruction 0 OpRet [] VoidType]])"
proof -
  have "case compile init ex_mixed of
        Inl e \<Rightarrow> False
      | Inr s' \<Rightarrow>
          errors s' = []
          \<and> map instructions (blocks (module s')) = [[Instruction 0 OpRet [] VoidType]]"
    unfolding ex_mixed_def by code_simp
  then show ?thesis by (simp add: infix_emit_def)
qed

text \<open>
  Claim C5.  A call to a name that does not resolve and an identifier that does not resolve
  end the compilation with a \<^verbatim>\<open>TypeError\<close> (the result \<^verbatim>\<open>None\<close> of the lookup is unpacked):
  no error is recorded and the statement that follows is not compiled.  An assignment to an
  undeclared name is recorded and the next statement is compiled.
\<close>

theorem unresolved_name_raises:
  "compile init ex_unresolved_call = Inl TypeError
   \<and> compile init ex_unresolved_identifier = Inl TypeError
   \<and> compile init ex_two_assignments =
        Inr (init\<lparr>errors := [assign_error ''x'', assign_error ''y'']\<rparr>)"
  unfolding ex_unresolved_call_def ex_unresolved_identifier_def ex_two_assignments_def
  by code_simp

text \<open>
  Claim C9.  Resolving a boolean literal prints its value: every such step adds a line to the
  standard output, and the compilation of \<^verbatim>\<open>let b: bool = true;\<close> leaves the line \<^verbatim>\<open>True\<close>
  there.
\<close>

theorem boolean_literal_prints:
  "resolve_value s (BooleanLiteral b) =
     Inr (Some (Constant (IntType 1) (CInt (if b then 1 else 0)), Some (IntType 1)),
          s\<lparr>stdout := stdout s @ [if b then ''True'' else ''False'']\<rparr>)
   \<and> (case compile init ex_bool of Inl e \<Rightarrow> False | Inr s' \<Rightarrow> stdout s' = [''True''])"
proof -
  have "case compile init ex_bool of Inl e \<Rightarrow> False | Inr s' \<Rightarrow> stdout s' = [''True'']"
    unfolding ex_bool_def by code_simp
  then show ?thesis by (simp add: print_bool_def)
qed

end
